theory Spec2Isabelle
  imports Complex_Main
begin

section \<open>The design-token table of \<open>frontend/tailwind.config.js\<close>\<close>

text \<open>
  The repository's one source file exports a single object literal. It runs no code but
  the \<open>require\<close> call of its plugin, so the embedding is the literal itself, as a value
  of the JavaScript forms it is built from, and the property reads a consumer makes on it.
\<close>

subsection \<open>Values\<close>

text \<open>
  The value forms of the file: booleans, strings, array literals, object literals (the
  properties in the order they are written) and the result of \<open>require(name)\<close>, kept as
  a reference to the module named. \<open>JUndefined\<close> is what reading an absent property gives.
\<close>

datatype jsval =
    JUndefined
  | JBool bool
  | JStr string
  | JArr "jsval list"
  | JObj "(string \<times> jsval) list"
  | JRequire string

subsection \<open>The exported object\<close>

text \<open>\<open>module.exports\<close>, lines 2 to 82 of the file, property by property.\<close>

definition module_exports :: jsval where
  "module_exports = JObj [
     (''darkMode'', JArr [JStr ''class'']),
     (''content'', JArr [
        JStr ''./pages/**/*.{js,jsx}'',
        JStr ''./components/**/*.{js,jsx}'',
        JStr ''./app/**/*.{js,jsx}'',
        JStr ''./src/**/*.{js,jsx}'']),
     (''prefix'', JStr ''''),
     (''theme'', JObj [
        (''container'', JObj [
           (''center'', JBool True),
           (''padding'', JStr ''2rem''),
           (''screens'', JObj [
              (''2xl'', JStr ''1400px'')])]),
        (''extend'', JObj [
           (''fontFamily'', JObj [
              (''heading'', JArr [JStr ''Outfit'', JStr ''sans-serif'']),
              (''body'', JArr [JStr ''DM Sans'', JStr ''sans-serif'']),
              (''mono'', JArr [JStr ''JetBrains Mono'', JStr ''monospace''])]),
           (''colors'', JObj [
              (''border'', JStr ''#E7E5E4''),
              (''input'', JStr ''#E7E5E4''),
              (''ring'', JStr ''#064E3B''),
              (''background'', JStr ''#FAFAF9''),
              (''foreground'', JStr ''#1C1917''),
              (''primary'', JObj [
                 (''DEFAULT'', JStr ''#064E3B''),
                 (''foreground'', JStr ''#FFFFFF'')]),
              (''secondary'', JObj [
                 (''DEFAULT'', JStr ''#FAFAF9''),
                 (''foreground'', JStr ''#1C1917'')]),
              (''accent'', JObj [
                 (''DEFAULT'', JStr ''#D9F99D''),
                 (''foreground'', JStr ''#365314'')]),
              (''muted'', JObj [
                 (''DEFAULT'', JStr ''#F5F5F4''),
                 (''foreground'', JStr ''#57534E'')]),
              (''destructive'', JObj [
                 (''DEFAULT'', JStr ''#EF4444''),
                 (''foreground'', JStr ''#FFFFFF'')]),
              (''card'', JObj [
                 (''DEFAULT'', JStr ''#FFFFFF''),
                 (''foreground'', JStr ''#1C1917'')]),
              (''popover'', JObj [
                 (''DEFAULT'', JStr ''#FFFFFF''),
                 (''foreground'', JStr ''#1C1917'')])]),
           (''borderRadius'', JObj [
              (''lg'', JStr ''0.5rem''),
              (''md'', JStr ''0.375rem''),
              (''sm'', JStr ''0.125rem'')]),
           (''keyframes'', JObj [
              (''accordion-down'', JObj [
                 (''from'', JObj [(''height'', JStr ''0'')]),
                 (''to'', JObj [(''height'', JStr ''var(--radix-accordion-content-height)'')])]),
              (''accordion-up'', JObj [
                 (''from'', JObj [(''height'', JStr ''var(--radix-accordion-content-height)'')]),
                 (''to'', JObj [(''height'', JStr ''0'')])])]),
           (''animation'', JObj [
              (''accordion-down'', JStr ''accordion-down 0.2s ease-out''),
              (''accordion-up'', JStr ''accordion-up 0.2s ease-out'')])])]),
     (''plugins'', JArr [JRequire ''tailwindcss-animate''])]"

subsection \<open>Reading the table\<close>

text \<open>
  \<open>get v k\<close> is the property read \<open>v[k]\<close> for a key of an object literal: where a
  literal writes a key twice the later property wins, and an absent key reads as
  \<open>undefined\<close>. Strings, booleans, arrays and plugin references hold no token keys.
\<close>

fun get :: "jsval \<Rightarrow> string \<Rightarrow> jsval" where
  "get (JObj kvs) k = (case map_of (rev kvs) k of None \<Rightarrow> JUndefined | Some v \<Rightarrow> v)"
| "get _ k = JUndefined"

text \<open>\<open>lookup v [k1, ..., kn]\<close> is the chained read \<open>v[k1]...[kn]\<close>.\<close>

definition lookup :: "jsval \<Rightarrow> string list \<Rightarrow> jsval" where
  "lookup v ks = foldl get v ks"

text \<open>The keys an object literal declares, each once.\<close>

fun keys :: "jsval \<Rightarrow> string list" where
  "keys (JObj kvs) = remdups (map fst kvs)"
| "keys _ = []"

text \<open>The elements of an array literal.\<close>

fun elements :: "jsval \<Rightarrow> jsval list" where
  "elements (JArr vs) = vs"
| "elements _ = []"

text \<open>
  Every key path the literal declares: each key of an object, and under it every path
  of the value written for that key.
\<close>

fun paths :: "jsval \<Rightarrow> string list list" where
  "paths (JObj kvs) =
     concat (map (\<lambda>kv. [fst kv] # map ((#) (fst kv)) (paths (snd kv))) kvs)"
| "paths _ = []"

text \<open>A value is fully defined when \<open>undefined\<close> occurs nowhere in it.\<close>

fun fully_defined :: "jsval \<Rightarrow> bool" where
  "fully_defined JUndefined = False"
| "fully_defined (JArr vs) = list_all fully_defined vs"
| "fully_defined (JObj kvs) = list_all (\<lambda>kv. fully_defined (snd kv)) kvs"
| "fully_defined _ = True"

text \<open>The sections of the table.\<close>

definition theme_container :: jsval where
  "theme_container = lookup module_exports [''theme'', ''container'']"

definition theme_extend :: jsval where
  "theme_extend = lookup module_exports [''theme'', ''extend'']"

definition fontFamily :: jsval where
  "fontFamily = get theme_extend ''fontFamily''"

definition colors :: jsval where
  "colors = get theme_extend ''colors''"

definition borderRadius :: jsval where
  "borderRadius = get theme_extend ''borderRadius''"

definition keyframes :: jsval where
  "keyframes = get theme_extend ''keyframes''"

definition animation :: jsval where
  "animation = get theme_extend ''animation''"

definition content :: jsval where
  "content = get module_exports ''content''"

definition plugins :: jsval where
  "plugins = get module_exports ''plugins''"

text \<open>No object literal anywhere in a value writes a key twice.\<close>

fun distinct_keys :: "jsval \<Rightarrow> bool" where
  "distinct_keys (JObj kvs) =
     (distinct (map fst kvs) \<and> list_all (\<lambda>kv. distinct_keys (snd kv)) kvs)"
| "distinct_keys (JArr vs) = list_all distinct_keys vs"
| "distinct_keys _ = True"

subsection \<open>Strings: splitting, prefixes and suffixes\<close>

text \<open>\<open>split_on d s\<close> is \<open>s.split(d)\<close> for a one-character separator.\<close>

fun split_on :: "char \<Rightarrow> string \<Rightarrow> string list" where
  "split_on d [] = [[]]"
| "split_on d (c # cs) =
     (if c = d then [] # split_on d cs
      else (case split_on d cs of [] \<Rightarrow> [[c]] | w # ws \<Rightarrow> (c # w) # ws))"

definition starts_with :: "string \<Rightarrow> string \<Rightarrow> bool" where
  "starts_with s pre = (take (length pre) s = pre)"

definition ends_with :: "string \<Rightarrow> string \<Rightarrow> bool" where
  "ends_with s suf = (length suf \<le> length s \<and> drop (length s - length suf) s = suf)"

subsection \<open>Colors\<close>

text \<open>A 6-digit RGB hex string: \<open>#\<close> and then exactly six hexadecimal digits.\<close>

definition is_hex_digit :: "char \<Rightarrow> bool" where
  "is_hex_digit c = (c \<in> set ''0123456789abcdefABCDEF'')"

definition valid_hex6 :: "string \<Rightarrow> bool" where
  "valid_hex6 s =
     (case s of
        [] \<Rightarrow> False
      | c # ds \<Rightarrow> c = CHR ''#'' \<and> length ds = 6 \<and> list_all is_hex_digit ds)"

definition is_hex_color :: "jsval \<Rightarrow> bool" where
  "is_hex_color v = (case v of JStr s \<Rightarrow> valid_hex6 s | _ \<Rightarrow> False)"

text \<open>
  A color role declares a foreground when its value is a mapping with the key
  \<open>foreground\<close>. (The role that is itself named \<open>foreground\<close> is a plain string.)
\<close>

definition declares_foreground :: "jsval \<Rightarrow> bool" where
  "declares_foreground v = (''foreground'' \<in> set (keys v))"

definition foreground_roles :: "string list" where
  "foreground_roles = filter (\<lambda>role. declares_foreground (get colors role)) (keys colors)"

text \<open>
  The color a hex string denotes, as the number its six digits write in base 16, so that
  the letter case of the digits does not matter.
\<close>

definition hex_digit_val :: "char \<Rightarrow> nat option" where
  "hex_digit_val c =
     map_of [
       (CHR ''0'', 0), (CHR ''1'', 1), (CHR ''2'', 2), (CHR ''3'', 3),
       (CHR ''4'', 4), (CHR ''5'', 5), (CHR ''6'', 6), (CHR ''7'', 7),
       (CHR ''8'', 8), (CHR ''9'', 9),
       (CHR ''A'', 10), (CHR ''B'', 11), (CHR ''C'', 12),
       (CHR ''D'', 13), (CHR ''E'', 14), (CHR ''F'', 15),
       (CHR ''a'', 10), (CHR ''b'', 11), (CHR ''c'', 12),
       (CHR ''d'', 13), (CHR ''e'', 14), (CHR ''f'', 15)] c"

definition hex_value :: "string \<Rightarrow> nat option" where
  "hex_value ds =
     foldl (\<lambda>acc c. case (acc, hex_digit_val c) of
                       (Some n, Some d) \<Rightarrow> Some (16 * n + d)
                     | _ \<Rightarrow> None) (Some 0) ds"

definition color_value :: "jsval \<Rightarrow> nat option" where
  "color_value v =
     (case v of
        JStr s \<Rightarrow> if valid_hex6 s then hex_value (tl s) else None
      | _ \<Rightarrow> None)"

definition distinct_colors :: "jsval \<Rightarrow> jsval \<Rightarrow> bool" where
  "distinct_colors a b =
     (case (color_value a, color_value b) of
        (Some x, Some y) \<Rightarrow> x \<noteq> y
      | _ \<Rightarrow> False)"

subsection \<open>Lengths\<close>

text \<open>
  A length is a decimal number (digits, and optionally a point and more digits) followed
  by its unit. The number is read as an exact rational.
\<close>

definition is_digit :: "char \<Rightarrow> bool" where
  "is_digit c = (c \<in> set ''0123456789'')"

definition digit_val :: "char \<Rightarrow> nat" where
  "digit_val c = of_char c - 48"

definition nat_of_digits :: "string \<Rightarrow> nat" where
  "nat_of_digits ds = foldl (\<lambda>n c. 10 * n + digit_val c) 0 ds"

definition parse_decimal :: "string \<Rightarrow> rat option" where
  "parse_decimal s =
     (let ip = takeWhile is_digit s; rest = dropWhile is_digit s in
      if ip = [] then None
      else (case rest of
              [] \<Rightarrow> Some (of_nat (nat_of_digits ip))
            | c # fp \<Rightarrow>
                if c = CHR ''.'' \<and> fp \<noteq> [] \<and> list_all is_digit fp
                then Some (of_nat (nat_of_digits (ip @ fp)) / 10 ^ length fp)
                else None))"

definition parse_length :: "string \<Rightarrow> (rat \<times> string) option" where
  "parse_length s =
     (let numeric = (\<lambda>c. is_digit c \<or> c = CHR ''.'') in
      map_option (\<lambda>q. (q, dropWhile numeric s)) (parse_decimal (takeWhile numeric s)))"

text \<open>The value of a length written in \<open>rem\<close>, in rem.\<close>

definition rem_value :: "jsval \<Rightarrow> rat option" where
  "rem_value v =
     (case v of
        JStr s \<Rightarrow> (case parse_length s of
                     None \<Rightarrow> None
                   | Some (q, u) \<Rightarrow> if u = ''rem'' then Some q else None)
      | _ \<Rightarrow> None)"

definition radius :: "string \<Rightarrow> rat option" where
  "radius k = rem_value (get borderRadius k)"

definition strictly_below :: "rat option \<Rightarrow> rat option \<Rightarrow> bool" where
  "strictly_below a b = (case (a, b) of (Some x, Some y) \<Rightarrow> x < y | _ \<Rightarrow> False)"

definition not_above :: "rat option \<Rightarrow> rat option \<Rightarrow> bool" where
  "not_above a b = (case (a, b) of (Some x, Some y) \<Rightarrow> x \<le> y | _ \<Rightarrow> False)"

subsection \<open>Animations\<close>

text \<open>
  An animation binding is written \<open>name duration easing\<close>: the keyframe it references is
  its first word.
\<close>

definition keyframe_ref :: "string \<Rightarrow> string option" where
  "keyframe_ref s =
     (case filter (\<lambda>w. w \<noteq> []) (split_on CHR '' '' s) of
        [] \<Rightarrow> None
      | w # _ \<Rightarrow> Some w)"

definition references_keyframe :: "jsval \<Rightarrow> jsval \<Rightarrow> bool" where
  "references_keyframe kfs binding =
     (case binding of
        JStr s \<Rightarrow> (case keyframe_ref s of
                     None \<Rightarrow> False
                   | Some kf \<Rightarrow> kf \<in> set (keys kfs))
      | _ \<Rightarrow> False)"

subsection \<open>Content globs\<close>

text \<open>
  A glob ends in a file-extension wildcard when its last path segment is \<open>*.\<close> followed
  by one extension, or by a brace list \<open>{e1,...,en}\<close> of extensions.
  \<open>wildcard_extensions\<close> gives the extensions such a segment names; the list of
  recognized extensions is a parameter of the check.
\<close>

definition last_segment :: "string \<Rightarrow> string" where
  "last_segment s = rev (takeWhile (\<lambda>c. c \<noteq> CHR ''/'') (rev s))"

definition wildcard_extensions :: "string \<Rightarrow> string list option" where
  "wildcard_extensions w =
     (if starts_with w ''*.'' then
        (let e = drop 2 w in
         if starts_with e ''{'' \<and> ends_with e ''}''
         then Some (split_on CHR '','' (butlast (tl e)))
         else Some [e])
      else None)"

definition ends_in_extension_wildcard :: "string list \<Rightarrow> jsval \<Rightarrow> bool" where
  "ends_in_extension_wildcard exts v =
     (case v of
        JStr g \<Rightarrow> g \<noteq> [] \<and>
          (case wildcard_extensions (last_segment g) of
             None \<Rightarrow> False
           | Some es \<Rightarrow> list_all (\<lambda>e. e \<noteq> [] \<and> e \<in> set exts) es)
      | _ \<Rightarrow> False)"

subsection \<open>Fonts\<close>

definition ends_in_generic_fallback :: "jsval \<Rightarrow> bool" where
  "ends_in_generic_fallback v =
     (case v of
        JArr fs \<Rightarrow> fs \<noteq> [] \<and> (last fs = JStr ''sans-serif'' \<or> last fs = JStr ''monospace'')
      | _ \<Rightarrow> False)"

subsection \<open>Shapes\<close>

definition is_token :: "jsval \<Rightarrow> bool" where
  "is_token v = (case v of JStr s \<Rightarrow> s \<noteq> [] | _ \<Rightarrow> False)"

definition is_token_list :: "jsval \<Rightarrow> bool" where
  "is_token_list v = (case v of JArr [t] \<Rightarrow> is_token t | _ \<Rightarrow> False)"

definition is_string :: "jsval \<Rightarrow> bool" where
  "is_string v = (case v of JStr s \<Rightarrow> True | _ \<Rightarrow> False)"

definition is_flag :: "jsval \<Rightarrow> bool" where
  "is_flag v = (case v of JBool b \<Rightarrow> True | _ \<Rightarrow> False)"

definition is_length :: "jsval \<Rightarrow> bool" where
  "is_length v = (case v of JStr s \<Rightarrow> parse_length s \<noteq> None | _ \<Rightarrow> False)"

definition is_mapping :: "jsval \<Rightarrow> bool" where
  "is_mapping v = (case v of JObj kvs \<Rightarrow> True | _ \<Rightarrow> False)"

definition is_plugin_reference :: "jsval \<Rightarrow> bool" where
  "is_plugin_reference v = (case v of JRequire m \<Rightarrow> True | _ \<Rightarrow> False)"

definition is_list_of :: "(jsval \<Rightarrow> bool) \<Rightarrow> jsval \<Rightarrow> bool" where
  "is_list_of P v = (case v of JArr vs \<Rightarrow> list_all P vs | _ \<Rightarrow> False)"

definition is_mapping_of :: "(jsval \<Rightarrow> bool) \<Rightarrow> jsval \<Rightarrow> bool" where
  "is_mapping_of P v =
     (case v of JObj kvs \<Rightarrow> list_all (\<lambda>k. P (get v k)) (keys v) | _ \<Rightarrow> False)"

text \<open>\<open>theme.container\<close>: a centering flag, a padding length, a breakpoint mapping.\<close>

definition container_shape :: "jsval \<Rightarrow> bool" where
  "container_shape c =
     (is_mapping c \<and> is_flag (get c ''center'') \<and> is_length (get c ''padding'') \<and>
      is_mapping_of is_length (get c ''screens''))"

text \<open>\<open>theme.extend\<close>: exactly the five sections, each a mapping.\<close>

definition extend_shape :: "jsval \<Rightarrow> bool" where
  "extend_shape e =
     (set (keys e) =
        {''fontFamily'', ''colors'', ''borderRadius'', ''keyframes'', ''animation''} \<and>
      is_mapping_of is_mapping e)"

text \<open>The top-level keys, and the shapes of \<open>content\<close>, \<open>prefix\<close> and \<open>plugins\<close>.\<close>

definition switches_shape :: "jsval \<Rightarrow> bool" where
  "switches_shape c =
     (set (keys c) = {''darkMode'', ''content'', ''prefix'', ''theme'', ''plugins''} \<and>
      is_list_of is_string (get c ''content'') \<and>
      get c ''prefix'' = JStr '''' \<and>
      is_list_of is_plugin_reference (get c ''plugins''))"

text \<open>
  The shape as the specification words it, with \<open>darkMode\<close> a strategy token, and the
  shape of the object the file exports, where \<open>darkMode\<close> is a list of one strategy token.
  The two differ in nothing else.
\<close>

definition spec_shape :: "jsval \<Rightarrow> bool" where
  "spec_shape c =
     (switches_shape c \<and> is_token (get c ''darkMode'') \<and>
      container_shape (lookup c [''theme'', ''container'']) \<and>
      extend_shape (lookup c [''theme'', ''extend'']))"

definition config_shape :: "jsval \<Rightarrow> bool" where
  "config_shape c =
     (switches_shape c \<and> is_token_list (get c ''darkMode'') \<and>
      container_shape (lookup c [''theme'', ''container'']) \<and>
      extend_shape (lookup c [''theme'', ''extend'']))"

section \<open>Properties of the table\<close>

subsection \<open>The sections, read out of the exported object\<close>

lemma theme_container_eq:
  "theme_container = JObj [
     (''center'', JBool True),
     (''padding'', JStr ''2rem''),
     (''screens'', JObj [(''2xl'', JStr ''1400px'')])]"
  by (simp add: theme_container_def lookup_def module_exports_def)

lemma fontFamily_eq:
  "fontFamily = JObj [
     (''heading'', JArr [JStr ''Outfit'', JStr ''sans-serif'']),
     (''body'', JArr [JStr ''DM Sans'', JStr ''sans-serif'']),
     (''mono'', JArr [JStr ''JetBrains Mono'', JStr ''monospace''])]"
  by (simp add: fontFamily_def theme_extend_def lookup_def module_exports_def)

lemma colors_eq:
  "colors = JObj [
     (''border'', JStr ''#E7E5E4''),
     (''input'', JStr ''#E7E5E4''),
     (''ring'', JStr ''#064E3B''),
     (''background'', JStr ''#FAFAF9''),
     (''foreground'', JStr ''#1C1917''),
     (''primary'', JObj [(''DEFAULT'', JStr ''#064E3B''), (''foreground'', JStr ''#FFFFFF'')]),
     (''secondary'', JObj [(''DEFAULT'', JStr ''#FAFAF9''), (''foreground'', JStr ''#1C1917'')]),
     (''accent'', JObj [(''DEFAULT'', JStr ''#D9F99D''), (''foreground'', JStr ''#365314'')]),
     (''muted'', JObj [(''DEFAULT'', JStr ''#F5F5F4''), (''foreground'', JStr ''#57534E'')]),
     (''destructive'', JObj [(''DEFAULT'', JStr ''#EF4444''), (''foreground'', JStr ''#FFFFFF'')]),
     (''card'', JObj [(''DEFAULT'', JStr ''#FFFFFF''), (''foreground'', JStr ''#1C1917'')]),
     (''popover'', JObj [(''DEFAULT'', JStr ''#FFFFFF''), (''foreground'', JStr ''#1C1917'')])]"
  by (simp add: colors_def theme_extend_def lookup_def module_exports_def)

lemma borderRadius_eq:
  "borderRadius = JObj [
     (''lg'', JStr ''0.5rem''),
     (''md'', JStr ''0.375rem''),
     (''sm'', JStr ''0.125rem'')]"
  by (simp add: borderRadius_def theme_extend_def lookup_def module_exports_def)

lemma keyframes_eq:
  "keyframes = JObj [
     (''accordion-down'', JObj [
        (''from'', JObj [(''height'', JStr ''0'')]),
        (''to'', JObj [(''height'', JStr ''var(--radix-accordion-content-height)'')])]),
     (''accordion-up'', JObj [
        (''from'', JObj [(''height'', JStr ''var(--radix-accordion-content-height)'')]),
        (''to'', JObj [(''height'', JStr ''0'')])])]"
  by (simp add: keyframes_def theme_extend_def lookup_def module_exports_def)

lemma animation_eq:
  "animation = JObj [
     (''accordion-down'', JStr ''accordion-down 0.2s ease-out''),
     (''accordion-up'', JStr ''accordion-up 0.2s ease-out'')]"
  by (simp add: animation_def theme_extend_def lookup_def module_exports_def)

lemma content_eq:
  "content = JArr [
     JStr ''./pages/**/*.{js,jsx}'',
     JStr ''./components/**/*.{js,jsx}'',
     JStr ''./app/**/*.{js,jsx}'',
     JStr ''./src/**/*.{js,jsx}'']"
  by (simp add: content_def module_exports_def)

lemma foreground_roles_eq:
  "foreground_roles =
     [''primary'', ''secondary'', ''accent'', ''muted'', ''destructive'', ''card'', ''popover'']"
  by (simp add: foreground_roles_def colors_eq declares_foreground_def)

subsection \<open>The checks tell well-formed entries from malformed ones\<close>

lemma valid_hex6_rejects:
  "\<not> valid_hex6 ''#FFF'' \<and> \<not> valid_hex6 ''#GGGGGG'' \<and> \<not> valid_hex6 ''064E3B0''"
  by (simp add: valid_hex6_def is_hex_digit_def)

lemma color_value_ignores_case:
  "color_value (JStr ''#fafaf9'') = color_value (JStr ''#FAFAF9'')"
  by (simp add: color_value_def valid_hex6_def is_hex_digit_def hex_value_def hex_digit_val_def)

lemma references_keyframe_rejects:
  "\<not> references_keyframe keyframes (JStr ''spin 1s linear'')"
  by (simp add: references_keyframe_def keyframe_ref_def keyframes_eq)

lemma ends_in_extension_wildcard_rejects:
  "\<not> ends_in_extension_wildcard [''js'', ''jsx''] (JStr ''./pages/**/*'') \<and>
   \<not> ends_in_extension_wildcard [''js'', ''jsx''] (JStr ''./pages/**/*.{js,css}'') \<and>
   \<not> ends_in_extension_wildcard [''js'', ''jsx''] (JStr '''')"
  by (simp add: ends_in_extension_wildcard_def wildcard_extensions_def last_segment_def
      starts_with_def ends_with_def)

lemma ends_in_generic_fallback_rejects:
  "\<not> ends_in_generic_fallback (JArr [JStr ''sans-serif'', JStr ''Outfit''])"
  by (simp add: ends_in_generic_fallback_def)

lemma rem_value_rejects:
  "rem_value (JStr ''1400px'') = None \<and> rem_value (JStr ''1.2.3rem'') = None"
  by (simp add: rem_value_def parse_length_def parse_decimal_def is_digit_def
      nat_of_digits_def digit_val_def)

subsection \<open>Reading a declared key\<close>

lemma get_member:
  assumes "distinct (map fst kvs)" and "(k, v) \<in> set kvs"
  shows "get (JObj kvs) k = v"
proof -
  from assms(1) have "distinct (map fst (rev kvs))"
    by (simp add: rev_map [symmetric])
  moreover from assms(2) have "(k, v) \<in> set (rev kvs)"
    by simp
  ultimately have "map_of (rev kvs) k = Some v"
    by (rule map_of_is_SomeI)
  then show ?thesis by simp
qed

lemma lookup_Cons: "lookup c (k # ks) = lookup (get c k) ks"
  by (simp add: lookup_def)

text \<open>
  In any value that writes no key twice and holds no \<open>undefined\<close>, every declared key
  path reads a fully defined value.
\<close>

lemma lookup_declared:
  "distinct_keys c \<Longrightarrow> fully_defined c \<Longrightarrow> p \<in> set (paths c) \<Longrightarrow> fully_defined (lookup c p)"
proof (induction c arbitrary: p)
  case (JObj kvs)
  from JObj.prems(3) obtain k v where kv: "(k, v) \<in> set kvs"
    and p: "p = [k] \<or> (\<exists>q \<in> set (paths v). p = k # q)"
    by auto
  from JObj.prems(1) have "distinct (map fst kvs)" by simp
  then have g: "get (JObj kvs) k = v" using kv by (rule get_member)
  from JObj.prems(1) kv have dv: "distinct_keys v"
    by (auto simp: list_all_iff)
  from JObj.prems(2) kv have fv: "fully_defined v"
    by (auto simp: list_all_iff)
  from p show ?case
  proof
    assume "p = [k]"
    with g fv show ?thesis by (simp add: lookup_def)
  next
    assume "\<exists>q \<in> set (paths v). p = k # q"
    then obtain q where q: "q \<in> set (paths v)" "p = k # q" by blast
    from kv have "v \<in> Basic_BNFs.snds (k, v)" by simp
    from JObj.IH [OF kv this dv fv q(1)] have "fully_defined (lookup v q)" .
    with g q(2) show ?thesis by (simp add: lookup_Cons)
  qed
qed simp_all

lemma module_exports_distinct_keys: "distinct_keys module_exports"
  by (simp add: module_exports_def)

lemma module_exports_fully_defined: "fully_defined module_exports"
  by (simp add: module_exports_def)

subsection \<open>The shape of the exported object\<close>

lemma module_exports_switches: "switches_shape module_exports"
  by (auto simp add: switches_shape_def module_exports_def is_list_of_def is_string_def
      is_plugin_reference_def)

lemma theme_container_shape: "container_shape theme_container"
  by (simp add: theme_container_eq container_shape_def is_mapping_def is_flag_def is_length_def
      is_mapping_of_def parse_length_def parse_decimal_def is_digit_def)

lemma theme_extend_shape: "extend_shape theme_extend"
  by (auto simp add: extend_shape_def theme_extend_def lookup_def module_exports_def
      is_mapping_of_def is_mapping_def)

lemma darkMode_eq: "get module_exports ''darkMode'' = JArr [JStr ''class'']"
  by (simp add: module_exports_def)

text \<open>
  Claim C1, as the code has it. The exported object has exactly the top-level keys
  \<open>darkMode\<close>, \<open>content\<close>, \<open>prefix\<close>, \<open>theme\<close> and \<open>plugins\<close>; \<open>darkMode\<close> is a list of
  one strategy token; \<open>content\<close> is a list of strings; \<open>prefix\<close> is the empty string;
  \<open>theme.container\<close> is a mapping with a centering flag, a padding length and a mapping
  of breakpoints to lengths; \<open>theme.extend\<close> is a mapping with exactly the sections
  \<open>fontFamily\<close>, \<open>colors\<close>, \<open>borderRadius\<close>, \<open>keyframes\<close> and \<open>animation\<close>, each a
  mapping; \<open>plugins\<close> is a list of external plugin references.
\<close>

theorem module_exports_shape: "config_shape module_exports"
  using module_exports_switches theme_container_shape theme_extend_shape
  by (simp add: config_shape_def theme_container_def theme_extend_def darkMode_eq
      is_token_list_def is_token_def)

text \<open>
  Claim C1, as the specification words it, fails: the value of \<open>darkMode\<close> is the array
  \<open>["class"]\<close>, not a strategy token.
\<close>

theorem module_exports_not_spec_shape: "\<not> spec_shape module_exports"
  by (simp add: spec_shape_def darkMode_eq is_token_def)

subsection \<open>Animations and keyframes\<close>

text \<open>
  Claim C2. Every entry of the \<open>animation\<close> mapping is a binding whose keyframe name is
  a key of the \<open>keyframes\<close> mapping; in particular the \<open>accordion-down\<close> animation
  references the keyframe \<open>accordion-down\<close>, which \<open>keyframes\<close> declares.
\<close>

theorem animation_references_keyframes:
  "(\<forall>name \<in> set (keys animation). references_keyframe keyframes (get animation name)) \<and>
   get animation ''accordion-down'' = JStr ''accordion-down 0.2s ease-out'' \<and>
   keyframe_ref ''accordion-down 0.2s ease-out'' = Some ''accordion-down'' \<and>
   ''accordion-down'' \<in> set (keys keyframes)"
  by (simp add: animation_eq keyframes_eq references_keyframe_def keyframe_ref_def)

theorem animation_references_keyframes_witness:
  "''accordion-up'' \<in> set (keys animation) \<and>
   references_keyframe keyframes (get animation ''accordion-up'')"
proof -
  have m: "''accordion-up'' \<in> set (keys animation)"
    by (simp add: animation_eq)
  from animation_references_keyframes
  have "\<forall>name \<in> set (keys animation). references_keyframe keyframes (get animation name)"
    by (rule conjunct1)
  with m show ?thesis by blast
qed

text \<open>
  Claim C9. The keyframe \<open>accordion-up\<close> is \<open>accordion-down\<close> reversed: the \<open>from\<close>
  state of either is the \<open>to\<close> state of the other, and each state sets the one
  property \<open>height\<close>.
\<close>

theorem accordion_up_reverses_accordion_down:
  "lookup keyframes [''accordion-up'', ''from''] = lookup keyframes [''accordion-down'', ''to''] \<and>
   lookup keyframes [''accordion-up'', ''to''] = lookup keyframes [''accordion-down'', ''from''] \<and>
   lookup keyframes [''accordion-down'', ''from''] = JObj [(''height'', JStr ''0'')] \<and>
   lookup keyframes [''accordion-down'', ''to''] =
     JObj [(''height'', JStr ''var(--radix-accordion-content-height)'')] \<and>
   keys (lookup keyframes [''accordion-up'', ''from'']) = [''height''] \<and>
   keys (lookup keyframes [''accordion-up'', ''to'']) = [''height'']"
  by (simp add: keyframes_eq lookup_def)

subsection \<open>Colors\<close>

text \<open>
  Claim C3. Every color role that declares a foreground defines both \<open>DEFAULT\<close> and
  \<open>foreground\<close>, and both are valid 6-digit RGB hex strings.
\<close>

theorem foreground_roles_are_hex_pairs:
  "\<forall>role \<in> set (keys colors).
     declares_foreground (get colors role) \<longrightarrow>
       is_hex_color (get (get colors role) ''DEFAULT'') \<and>
       is_hex_color (get (get colors role) ''foreground'')"
  by (simp add: colors_eq declares_foreground_def is_hex_color_def valid_hex6_def
      is_hex_digit_def)

theorem foreground_roles_are_hex_pairs_witness:
  "''primary'' \<in> set (keys colors) \<and>
   declares_foreground (get colors ''primary'') \<and>
   is_hex_color (get (get colors ''primary'') ''DEFAULT'') \<and>
   is_hex_color (get (get colors ''primary'') ''foreground'')"
proof -
  have m: "''primary'' \<in> set (keys colors)"
    by (simp add: colors_eq)
  have d: "declares_foreground (get colors ''primary'')"
    by (simp add: colors_eq declares_foreground_def)
  from foreground_roles_are_hex_pairs m d show ?thesis by blast
qed

text \<open>
  Claim C10. The color roles that declare a foreground are \<open>primary\<close>, \<open>secondary\<close>,
  \<open>accent\<close>, \<open>muted\<close>, \<open>destructive\<close>, \<open>card\<close> and \<open>popover\<close>, and for each of them
  the \<open>DEFAULT\<close> hex value differs from the \<open>foreground\<close> hex value, as strings and as
  the colors they denote.
\<close>

theorem foreground_differs_from_default:
  "set foreground_roles =
     {''primary'', ''secondary'', ''accent'', ''muted'', ''destructive'', ''card'', ''popover''} \<and>
   (\<forall>role \<in> set foreground_roles.
      get (get colors role) ''DEFAULT'' \<noteq> get (get colors role) ''foreground'' \<and>
      distinct_colors (get (get colors role) ''DEFAULT'') (get (get colors role) ''foreground''))"
  by (simp add: foreground_roles_eq colors_eq distinct_colors_def color_value_def valid_hex6_def
      is_hex_digit_def hex_value_def hex_digit_val_def)

theorem foreground_differs_from_default_witness:
  "''destructive'' \<in> set foreground_roles \<and>
   get (get colors ''destructive'') ''DEFAULT'' = JStr ''#EF4444'' \<and>
   get (get colors ''destructive'') ''foreground'' = JStr ''#FFFFFF'' \<and>
   distinct_colors (JStr ''#EF4444'') (JStr ''#FFFFFF'')"
proof -
  have m: "''destructive'' \<in> set foreground_roles"
    by (simp add: foreground_roles_eq)
  have d: "get (get colors ''destructive'') ''DEFAULT'' = JStr ''#EF4444''"
    and f: "get (get colors ''destructive'') ''foreground'' = JStr ''#FFFFFF''"
    by (simp_all add: colors_eq)
  from foreground_differs_from_default m
  have "distinct_colors (get (get colors ''destructive'') ''DEFAULT'')
          (get (get colors ''destructive'') ''foreground'')"
    by blast
  with m d f show ?thesis by simp
qed

subsection \<open>Border radii\<close>

lemma radius_sm: "radius ''sm'' = Some (1 / 8)"
  by (simp add: radius_def borderRadius_eq rem_value_def parse_length_def parse_decimal_def
      is_digit_def nat_of_digits_def digit_val_def)

lemma radius_md: "radius ''md'' = Some (3 / 8)"
  by (simp add: radius_def borderRadius_eq rem_value_def parse_length_def parse_decimal_def
      is_digit_def nat_of_digits_def digit_val_def)

lemma radius_lg: "radius ''lg'' = Some (1 / 2)"
  by (simp add: radius_def borderRadius_eq rem_value_def parse_length_def parse_decimal_def
      is_digit_def nat_of_digits_def digit_val_def)

text \<open>
  Claim C4. The radii are declared as \<open>sm = 0.125rem\<close>, \<open>md = 0.375rem\<close> and
  \<open>lg = 0.5rem\<close>; read in rem as exact rationals they are 1/8, 3/8 and 1/2, which are
  non-decreasing from \<open>sm\<close> to \<open>md\<close> to \<open>lg\<close>, and strictly increasing.
\<close>

theorem borderRadius_increasing:
  "get borderRadius ''sm'' = JStr ''0.125rem'' \<and>
   get borderRadius ''md'' = JStr ''0.375rem'' \<and>
   get borderRadius ''lg'' = JStr ''0.5rem'' \<and>
   radius ''sm'' = Some (1 / 8) \<and> radius ''md'' = Some (3 / 8) \<and> radius ''lg'' = Some (1 / 2) \<and>
   not_above (radius ''sm'') (radius ''md'') \<and> not_above (radius ''md'') (radius ''lg'') \<and>
   strictly_below (radius ''sm'') (radius ''md'') \<and> strictly_below (radius ''md'') (radius ''lg'')"
  by (simp add: radius_sm radius_md radius_lg strictly_below_def not_above_def borderRadius_eq)

subsection \<open>Content globs\<close>

text \<open>
  Claim C5. Every pattern of the \<open>content\<close> list is a non-empty string whose last path
  segment is a file-extension wildcard over recognized extensions. The patterns name the
  extensions \<open>js\<close> and \<open>jsx\<close>, so this holds for every choice of the recognized
  extensions that has both.
\<close>

theorem content_globs_end_in_extension_wildcard:
  "''js'' \<in> set exts \<Longrightarrow> ''jsx'' \<in> set exts \<Longrightarrow>
   list_all (ends_in_extension_wildcard exts) (elements content)"
  by (simp add: content_eq ends_in_extension_wildcard_def wildcard_extensions_def
      last_segment_def starts_with_def ends_with_def)

theorem content_globs_end_in_extension_wildcard_witness:
  "''js'' \<in> set [''js'', ''jsx'', ''ts'', ''tsx''] \<and>
   ''jsx'' \<in> set [''js'', ''jsx'', ''ts'', ''tsx''] \<and>
   length (elements content) = 4 \<and>
   list_all (ends_in_extension_wildcard [''js'', ''jsx'', ''ts'', ''tsx'']) (elements content)"
proof -
  have a: "''js'' \<in> set [''js'', ''jsx'', ''ts'', ''tsx'']"
    and b: "''jsx'' \<in> set [''js'', ''jsx'', ''ts'', ''tsx'']"
    by simp_all
  have n: "length (elements content) = 4"
    by (simp add: content_eq)
  from content_globs_end_in_extension_wildcard [OF a b] a b n show ?thesis
    by blast
qed

subsection \<open>Fonts\<close>

text \<open>
  Claim C7. The font roles are \<open>heading\<close>, \<open>body\<close> and \<open>mono\<close>, and the fallback
  sequence of each ends in a generic family, \<open>sans-serif\<close> or \<open>monospace\<close>.
\<close>

theorem fontFamily_ends_in_generic_fallback:
  "set (keys fontFamily) = {''heading'', ''body'', ''mono''} \<and>
   (\<forall>role \<in> set (keys fontFamily). ends_in_generic_fallback (get fontFamily role))"
  by (auto simp add: fontFamily_eq ends_in_generic_fallback_def)

theorem fontFamily_ends_in_generic_fallback_witness:
  "''mono'' \<in> set (keys fontFamily) \<and>
   get fontFamily ''mono'' = JArr [JStr ''JetBrains Mono'', JStr ''monospace''] \<and>
   ends_in_generic_fallback (JArr [JStr ''JetBrains Mono'', JStr ''monospace''])"
proof -
  have m: "''mono'' \<in> set (keys fontFamily)"
    by (simp add: fontFamily_eq)
  have g: "get fontFamily ''mono'' = JArr [JStr ''JetBrains Mono'', JStr ''monospace'']"
    by (simp add: fontFamily_eq)
  from fontFamily_ends_in_generic_fallback m
  have "ends_in_generic_fallback (get fontFamily ''mono'')"
    by blast
  with m g show ?thesis by simp
qed

subsection \<open>Plugins\<close>

text \<open>
  What the file fixes about its plugins: the \<open>plugins\<close> list has exactly one entry, a
  reference to the external module \<open>tailwindcss-animate\<close>. The file holds that module's
  name and nothing of its contents, so what the module provides is no property of this
  table. The accordion keyframes and the bindings that use them are the table's own,
  under \<open>theme.extend\<close>.
\<close>

lemma plugins_single_reference:
  "plugins = JArr [JRequire ''tailwindcss-animate''] \<and>
   length (elements plugins) = 1 \<and>
   list_all is_plugin_reference (elements plugins)"
  by (simp add: plugins_def module_exports_def is_plugin_reference_def)

lemma accordion_animations_declared_in_table:
  "keys keyframes = [''accordion-down'', ''accordion-up''] \<and>
   keys animation = [''accordion-down'', ''accordion-up'']"
  by (simp add: keyframes_eq animation_eq)

subsection \<open>Lookup of declared keys\<close>

text \<open>
  Claim C6. Every key path declared anywhere in the exported object reads a fully
  defined value: neither \<open>undefined\<close> nor a value with \<open>undefined\<close> inside it. The
  read is a function of the table and the path alone.
\<close>

theorem declared_keys_fully_defined:
  "\<forall>p \<in> set (paths module_exports).
     lookup module_exports p \<noteq> JUndefined \<and> fully_defined (lookup module_exports p)"
proof
  fix p
  assume "p \<in> set (paths module_exports)"
  with module_exports_distinct_keys module_exports_fully_defined
  have d: "fully_defined (lookup module_exports p)"
    by (rule lookup_declared)
  then have "lookup module_exports p \<noteq> JUndefined"
    by auto
  with d show "lookup module_exports p \<noteq> JUndefined \<and> fully_defined (lookup module_exports p)"
    by simp
qed

theorem declared_keys_fully_defined_witness:
  "[''theme'', ''extend'', ''colors'', ''primary'', ''DEFAULT''] \<in> set (paths module_exports) \<and>
   lookup module_exports [''theme'', ''extend'', ''colors'', ''primary'', ''DEFAULT''] =
     JStr ''#064E3B'' \<and>
   fully_defined (lookup module_exports [''theme'', ''extend'', ''colors'', ''primary'', ''DEFAULT''])"
proof -
  have m: "[''theme'', ''extend'', ''colors'', ''primary'', ''DEFAULT'']
             \<in> set (paths module_exports)"
    by (simp add: module_exports_def)
  have v: "lookup module_exports [''theme'', ''extend'', ''colors'', ''primary'', ''DEFAULT''] =
             JStr ''#064E3B''"
    by (simp add: lookup_def module_exports_def)
  from declared_keys_fully_defined m
  have "fully_defined
          (lookup module_exports [''theme'', ''extend'', ''colors'', ''primary'', ''DEFAULT''])"
    by blast
  with m v show ?thesis by blast
qed

end
